theory Spec2Isabelle
  imports Main "HOL-Library.AList" "HOL-Library.Sublist"
begin

section \<open>Python values used by the server\<close>

text \<open>
  Strings are lists of 8-bit characters. Case mapping, the word class of the regular
  expression engine (\<^verbatim>\<open>\w\<close>) and white space are modelled on the ASCII range.
  A Python dict is an association list with distinct keys: \<open>map_of\<close> reads it,
  \<open>AList.update\<close> is item assignment (an existing key keeps its position, a new key is
  appended) and \<open>AList.delete\<close> is \<^verbatim>\<open>pop(key, None)\<close>.
\<close>

datatype py_error = KeyError | IndexError | TypeError | AttributeError | ValueError

type_synonym path = string

definition py_lower_char :: "char \<Rightarrow> char" where
  "py_lower_char c =
     (let n = (of_char c :: nat) in if 65 \<le> n \<and> n \<le> 90 then char_of (n + 32) else c)"

definition py_lower :: "string \<Rightarrow> string" where
  "py_lower s = map py_lower_char s"





text \<open>\<^verbatim>\<open>sub in s\<close> for strings: \<open>sub\<close> occurs in \<open>s\<close> as a contiguous run.\<close>

fun py_in :: "string \<Rightarrow> string \<Rightarrow> bool" where
  "py_in sub [] = (sub = [])"
| "py_in sub (c # cs) = (prefix sub (c # cs) \<or> py_in sub cs)"

text \<open>
  \<^verbatim>\<open>s.split(sep)\<close> for a non-empty separator: the pieces between the leftmost,
  non-overlapping occurrences of \<open>sep\<close>; the result is never empty.
\<close>

fun split_from :: "string \<Rightarrow> string \<Rightarrow> string \<Rightarrow> string list" where
  "split_from sep acc [] = [rev acc]"
| "split_from sep acc (c # cs) =
     (if sep \<noteq> [] \<and> prefix sep (c # cs)
      then rev acc # split_from sep [] (drop (length sep - 1) cs)
      else split_from sep (c # acc) cs)"

definition py_split :: "string \<Rightarrow> string \<Rightarrow> string list" where
  "py_split sep s = split_from sep [] s"





section \<open>The symbol model\<close>

text \<open>
  A scope object, as far as the server reads it: its identity, \<^verbatim>\<open>get_type()\<close> and
  \<^verbatim>\<open>parent\<close>.
\<close>

datatype scope = Scope (scope_id: nat) (scope_type: nat) (scope_parent: "scope option")

text \<open>
  The abstract syntax tree of one file. \<^verbatim>\<open>global_dict\<close> maps the lowercased names of
  the file's top-level objects to these objects, which are referred to by identity.
\<close>

record ast =
  global_dict :: "(string \<times> nat) list"

text \<open>
  A \<^verbatim>\<open>SuricataFile\<close>: object identity, path, the line-split content, the content
  hash (absent until the first load) and the tree built by \<^verbatim>\<open>parse_file\<close>.
\<close>

record suricata_file =
  file_id :: nat
  path :: path
  contents_split :: "string list"
  hash :: "string option"
  ast :: "ast option"

text \<open>One entry of a signature's parameter list.\<close>

record param =
  label :: string
  documentation :: "string option"

text \<open>
  A symbol object. \<open>sym_id\<close> is the object's identity (what Python's \<^verbatim>\<open>is\<close> compares);
  \<open>link_obj\<close> is the identity of the linked object, absent when the attribute is missing
  or \<^verbatim>\<open>None\<close>; \<open>file_ast_path\<close> is \<^verbatim>\<open>file_ast.path\<close> and \<open>file_ast_file\<close> is
  \<^verbatim>\<open>file_ast.file\<close>; \<open>obj_type\<close> is \<^verbatim>\<open>get_type()\<close> and \<open>obj_type_no_link\<close> is
  \<^verbatim>\<open>get_type(no_link=True)\<close>; \<open>signature\<close> is \<^verbatim>\<open>get_signature()\<close>.
\<close>

record symbol =
  sym_id :: nat
  name :: string
  FQSN :: string
  sline :: int
  eline :: int
  parent :: "scope option"
  obj_type :: nat
  obj_type_no_link :: nat
  link_obj :: "nat option"
  file_ast_path :: path
  file_ast_file :: "suricata_file option"
  signature :: "string option \<times> string option \<times> param list"

type_synonym obj_tree = "(string \<times> symbol list) list"

section \<open>The language server state\<close>

text \<open>What the server writes to its connection.\<close>

datatype conn_msg =
    ShowMessage nat string
  | PublishDiagnostics string "string list"
  | WriteError int int string

record lang_server =
  workspace :: "(path \<times> suricata_file) list"
  obj_tree :: obj_tree
  post_messages :: "(nat \<times> string) list"
  source_dirs :: "path list"
  excl_paths :: "path list"
  excl_suffixes :: "string list"
  conn :: "conn_msg list"

text \<open>
  The file system and the file layer the workspace code calls. \<open>read_disk\<close> is the read
  of a file's content: an error string, or the lines and their hash. \<open>parse_file\<close>
  yields the parsed file object, or nothing when it raises. \<open>check_file\<close> yields the
  text of the exception it raises, or its diagnostics.
\<close>

record file_env =
  path_from_uri :: "string \<Rightarrow> path"
  path_to_uri :: "path \<Rightarrow> string"
  os_path_isfile :: "path \<Rightarrow> bool"
  os_listdir :: "path \<Rightarrow> string list"
  os_path_ext :: "string \<Rightarrow> string"
  os_path_normjoin :: "path \<Rightarrow> string \<Rightarrow> path"
  new_file_id :: "path \<Rightarrow> nat"
  read_disk :: "path \<Rightarrow> string + (string list \<times> string)"
  parse_file :: "suricata_file \<Rightarrow> suricata_file option"
  fortran_ast :: "suricata_file \<Rightarrow> ast"
  check_file :: "suricata_file \<Rightarrow> obj_tree \<Rightarrow> string + string list option"

text \<open>The constructor \<^verbatim>\<open>SuricataFile(filepath, ...)\<close>: nothing loaded, nothing parsed.\<close>

definition SuricataFile :: "file_env \<Rightarrow> path \<Rightarrow> suricata_file" where
  "SuricataFile fe filepath =
     \<lparr>file_id = new_file_id fe filepath, path = filepath, contents_split = [],
      hash = None, ast = None\<rparr>"

text \<open>
  Modelled from the spec: \<^verbatim>\<open>SuricataFile.load_from_disk\<close>, whose source is not part of
  the two files. It reads the file at the object's path; on failure it returns the
  error string and leaves the object as it was, on success it replaces the line-split
  content and the content fingerprint and returns \<^verbatim>\<open>None\<close>. The tree is not touched.
\<close>

definition load_from_disk :: "file_env \<Rightarrow> suricata_file \<Rightarrow> string option \<times> suricata_file" where
  "load_from_disk fe file_obj =
     (case read_disk fe (path file_obj) of
        Inl err_str \<Rightarrow> (Some err_str, file_obj)
      | Inr (ls, h) \<Rightarrow> (None, file_obj\<lparr>contents_split := ls, hash := Some h\<rparr>))"

section \<open>Workspace initialisation and update\<close>

definition init_file :: "file_env \<Rightarrow> path \<Rightarrow> suricata_file option \<times> string option" where
  "init_file fe filepath =
     (let file_obj = SuricataFile fe filepath;
          (err_str, file_obj) = load_from_disk fe file_obj
      in if err_str \<noteq> None then (None, err_str)
         else (case parse_file fe file_obj of
                 None \<Rightarrow> (None, Some ''Error during parsing'')
               | Some file_obj \<Rightarrow> (Some file_obj, None)))"

text \<open>
  An object that is already stored in the workspace is shared with it: what
  \<^verbatim>\<open>load_from_disk\<close> and \<^verbatim>\<open>parse_file\<close> change in the object is visible in the
  workspace. \<open>sync_file\<close> writes the changed object back under its key when the key is
  there.
\<close>

definition sync_file :: "path \<Rightarrow> suricata_file \<Rightarrow> lang_server \<Rightarrow> lang_server" where
  "sync_file filepath file_obj s =
     (if map_of (workspace s) filepath = None then s
      else s\<lparr>workspace := AList.update filepath file_obj (workspace s)\<rparr>)"

text \<open>
  \<^verbatim>\<open>file_obj.parse_file()\<close> and what follows it. An object taken from the workspace is
  changed in place, a new one is stored under its path: both leave the parsed object
  under \<open>filepath\<close>. A call on no object raises inside the \<^verbatim>\<open>try\<close>.
\<close>

definition do_parse ::
  "file_env \<Rightarrow> path \<Rightarrow> suricata_file option \<Rightarrow> lang_server
     \<Rightarrow> (bool \<times> string option) \<times> lang_server" where
  "do_parse fe filepath file_obj s =
     (case file_obj of
        None \<Rightarrow> ((False, Some ''Error during parsing''), s)
      | Some f \<Rightarrow>
          (case parse_file fe f of
             None \<Rightarrow> ((False, Some ''Error during parsing''), s)
           | Some f' \<Rightarrow>
               ((True, None), s\<lparr>workspace := AList.update filepath f' (workspace s)\<rparr>)))"

definition update_workspace_file ::
  "file_env \<Rightarrow> path \<Rightarrow> bool \<Rightarrow> bool \<Rightarrow> bool \<Rightarrow> lang_server
     \<Rightarrow> (bool \<times> string option) \<times> lang_server" where
  "update_workspace_file fe filepath read_file allow_empty update_links s =
     (let file_obj = map_of (workspace s) filepath in
      if read_file then
        (let file_new = (case file_obj of None \<Rightarrow> SuricataFile fe filepath | Some f \<Rightarrow> f) in
         if file_obj = None \<and> \<not> os_path_isfile fe filepath then
           (if allow_empty
            then ((False, None),
                  s\<lparr>workspace :=
                      AList.update filepath (file_new\<lparr>ast := Some (fortran_ast fe file_new)\<rparr>)
                        (workspace s)\<rparr>)
            else ((False, Some ''File does not exist''), s))
         else
           (let hash_old = hash file_new;
                (err_string, file_loaded) = load_from_disk fe file_new;
                s1 = sync_file filepath file_loaded s
            in if err_string \<noteq> None then ((False, err_string), s1)
               else if hash_old = hash file_loaded then ((False, None), s1)
               else do_parse fe filepath (Some file_loaded) s1))
      else do_parse fe filepath file_obj s)"

text \<open>
  \<^verbatim>\<open>SURICATA_RULES_EXT_REGEX.match(ext)\<close> for \<^verbatim>\<open>^\.rules?$\<close> with \<^verbatim>\<open>re.I\<close>; the
  \<^verbatim>\<open>$\<close> also matches before a final newline.
\<close>

definition rules_ext_match :: "string \<Rightarrow> bool" where
  "rules_ext_match ext =
     (py_lower ext \<in> {''.rule'', ''.rules'', ''.rule'' @ [CHR 0x0A], ''.rules'' @ [CHR 0x0A]})"

definition py_endswith :: "string \<Rightarrow> string \<Rightarrow> bool" where
  "py_endswith s suf = suffix suf s"

definition dir_files :: "file_env \<Rightarrow> lang_server \<Rightarrow> path \<Rightarrow> path list" where
  "dir_files fe s source_dir =
     concat (map (\<lambda>filename.
        if rules_ext_match (os_path_ext fe filename) then
          (let filepath = os_path_normjoin fe source_dir filename in
           if filepath \<in> set (excl_paths s) then []
           else if list_ex (\<lambda>excl_suffix. py_endswith filepath excl_suffix) (excl_suffixes s)
                then [] else [filepath])
        else []) (os_listdir fe source_dir))"

definition file_list_of :: "file_env \<Rightarrow> lang_server \<Rightarrow> path list" where
  "file_list_of fe s = concat (map (dir_files fe s) (source_dirs s))"

text \<open>
  The pool's result dict: one entry per path, in the order of first insertion. A worker
  computes \<open>init_file\<close> on its path and shares nothing.
\<close>

definition pool_results ::
  "file_env \<Rightarrow> path list \<Rightarrow> (path \<times> (suricata_file option \<times> string option)) list" where
  "pool_results fe file_list =
     fold (\<lambda>filepath results. AList.update filepath (init_file fe filepath) results) file_list []"

definition init_failed_msg :: "path \<Rightarrow> string option \<Rightarrow> string" where
  "init_failed_msg p err =
     ''Initialization failed for file \"'' @ p @ ''\": ''
       @ (case err of None \<Rightarrow> ''None'' | Some e \<Rightarrow> e)"

fun merge_results ::
  "(path \<times> (suricata_file option \<times> string option)) list \<Rightarrow> lang_server \<Rightarrow> lang_server" where
  "merge_results [] s = s"
| "merge_results ((p, result_obj) # rest) s =
     (case fst result_obj of
        None \<Rightarrow>
          merge_results rest
            (s\<lparr>post_messages := post_messages s @ [(1, init_failed_msg p (snd result_obj))]\<rparr>)
      | Some file_obj \<Rightarrow>
          merge_results rest (s\<lparr>workspace := AList.update p file_obj (workspace s)\<rparr>))"

definition workspace_init :: "file_env \<Rightarrow> lang_server \<Rightarrow> lang_server" where
  "workspace_init fe s = merge_results (pool_results fe (file_list_of fe s)) s"

section \<open>Saving, opening and closing a file\<close>

definition post_message :: "string \<Rightarrow> nat \<Rightarrow> lang_server \<Rightarrow> lang_server" where
  "post_message message type s = s\<lparr>conn := conn s @ [ShowMessage type message]\<rparr>"

definition get_diagnostics ::
  "file_env \<Rightarrow> string \<Rightarrow> lang_server \<Rightarrow> string list option \<times> string option" where
  "get_diagnostics fe uri s =
     (case map_of (workspace s) (path_from_uri fe uri) of
        None \<Rightarrow> (None, None)
      | Some file_obj \<Rightarrow>
          (case check_file fe file_obj (obj_tree s) of
             Inl e \<Rightarrow> (None, Some e)
           | Inr diags \<Rightarrow> (diags, None)))"

definition send_diagnostics :: "file_env \<Rightarrow> string \<Rightarrow> lang_server \<Rightarrow> lang_server" where
  "send_diagnostics fe uri s =
     (case get_diagnostics fe uri s of
        (Some diag_results, _) \<Rightarrow> s\<lparr>conn := conn s @ [PublishDiagnostics uri diag_results]\<rparr>
      | (None, Some diag_exp) \<Rightarrow> s\<lparr>conn := conn s @ [WriteError (- 1) (- 32603) diag_exp]\<rparr>
      | (None, None) \<Rightarrow> s)"

definition pop_keys :: "string list \<Rightarrow> obj_tree \<Rightarrow> obj_tree" where
  "pop_keys keys tree = fold (\<lambda>key t. AList.delete key t) keys tree"

definition serve_onSave :: "file_env \<Rightarrow> string \<Rightarrow> bool \<Rightarrow> bool \<Rightarrow> lang_server \<Rightarrow> lang_server" where
  "serve_onSave fe uri did_open did_close s =
     (let filepath = path_from_uri fe uri in
      if did_close \<and> \<not> os_path_isfile fe filepath then
        (case map_of (workspace s) filepath of
           None \<Rightarrow> s
         | Some file_obj \<Rightarrow>
             (case ast file_obj of
                None \<Rightarrow> s
              | Some ast_old \<Rightarrow> s\<lparr>obj_tree := pop_keys (map fst (global_dict ast_old)) (obj_tree s)\<rparr>))
      else
        (let ((did_change, err_str), s1) = update_workspace_file fe filepath True did_open False s in
         case err_str of
           Some e \<Rightarrow>
             post_message (''Save request failed for file \"'' @ filepath @ ''\": '' @ e) 1 s1
         | None \<Rightarrow> send_diagnostics fe uri s1))"

definition serve_onClose :: "file_env \<Rightarrow> string \<Rightarrow> lang_server \<Rightarrow> lang_server" where
  "serve_onClose fe uri s = serve_onSave fe uri False True s"

section \<open>The AST layer\<close>


section \<open>Definition lookup\<close>


section \<open>Reference search\<close>














section \<open>Signature help\<close>







section \<open>Rename\<close>







section \<open>Parsing the engine's error output\<close>

text \<open>
  What \<^verbatim>\<open>json.loads\<close> yields. Numbers are integers, as the engine's error codes and
  line numbers are; an object is a dict, with distinct keys.
\<close>

datatype json =
    JNull
  | JBool bool
  | JNum int
  | JStr string
  | JArr "json list"
  | JObj "(string \<times> json) list"

text \<open>
  The library functions \<^verbatim>\<open>parse_suricata_error\<close> calls. \<open>json_loads\<close> yields nothing
  when \<^verbatim>\<open>json.loads\<close> raises \<^verbatim>\<open>JSONDecodeError\<close>. \<open>re_match_group\<close> and
  \<open>re_search_group\<close> take a pattern and a text and yield group 1 of \<^verbatim>\<open>re.match\<close> and of
  \<^verbatim>\<open>re.search\<close>, or nothing when there is no match; \<open>re_search\<close> tells whether
  \<^verbatim>\<open>re.search\<close> finds a match.
\<close>

record lib_env =
  json_loads :: "string \<Rightarrow> json option"
  re_match_group :: "string \<Rightarrow> string \<Rightarrow> string option"
  re_search_group :: "string \<Rightarrow> string \<Rightarrow> string option"
  re_search :: "string \<Rightarrow> string \<Rightarrow> bool"

text \<open>Iterating over \<^verbatim>\<open>io.StringIO(error)\<close>: the lines, each with its newline.\<close>

fun lines_from :: "string \<Rightarrow> string \<Rightarrow> string list" where
  "lines_from acc [] = (if acc = [] then [] else [rev acc])"
| "lines_from acc (c # cs) =
     (if c = CHR 0x0A then rev (c # acc) # lines_from [] cs else lines_from (c # acc) cs)"

definition py_lines :: "string \<Rightarrow> string list" where
  "py_lines s = lines_from [] s"

text \<open>\<^verbatim>\<open>obj[key]\<close> and \<^verbatim>\<open>obj[key] = v\<close> for a string key.\<close>

definition py_getitem :: "json \<Rightarrow> string \<Rightarrow> py_error + json" where
  "py_getitem obj key =
     (case obj of
        JObj kvs \<Rightarrow> (case map_of kvs key of None \<Rightarrow> Inl KeyError | Some v \<Rightarrow> Inr v)
      | _ \<Rightarrow> Inl TypeError)"

definition py_setitem :: "json \<Rightarrow> string \<Rightarrow> json \<Rightarrow> py_error + json" where
  "py_setitem obj key v =
     (case obj of
        JObj kvs \<Rightarrow> Inr (JObj (AList.update key v kvs))
      | _ \<Rightarrow> Inl TypeError)"

text \<open>
  \<^verbatim>\<open>sub in v\<close> for a string \<open>sub\<close>: a substring test on a string, membership in a list,
  key membership in a dict, a type error otherwise.
\<close>

definition py_contains :: "string \<Rightarrow> json \<Rightarrow> py_error + bool" where
  "py_contains sub v =
     (case v of
        JStr m \<Rightarrow> Inr (py_in sub m)
      | JArr xs \<Rightarrow> Inr (JStr sub \<in> set xs)
      | JObj kvs \<Rightarrow> Inr (sub \<in> set (map fst kvs))
      | _ \<Rightarrow> Inl TypeError)"

text \<open>A string method on a value that is not a string raises \<^verbatim>\<open>AttributeError\<close>.\<close>

definition str_of :: "json \<Rightarrow> py_error + string" where
  "str_of v = (case v of JStr m \<Rightarrow> Inr m | _ \<Rightarrow> Inl AttributeError)"

text \<open>The text argument of \<^verbatim>\<open>re.match\<close> and \<^verbatim>\<open>re.search\<close> must be a string.\<close>

definition re_text :: "json \<Rightarrow> py_error + string" where
  "re_text v = (case v of JStr m \<Rightarrow> Inr m | _ \<Rightarrow> Inl TypeError)"

text \<open>\<^verbatim>\<open>int(s)\<close> on a string of decimal digits.\<close>

definition digit_val :: "char \<Rightarrow> nat option" where
  "digit_val c =
     (let n = (of_char c :: nat) in if 48 \<le> n \<and> n \<le> 57 then Some (n - 48) else None)"

fun digits_val :: "nat \<Rightarrow> string \<Rightarrow> nat option" where
  "digits_val acc [] = Some acc"
| "digits_val acc (c # cs) =
     (case digit_val c of None \<Rightarrow> None | Some d \<Rightarrow> digits_val (10 * acc + d) cs)"

definition py_int :: "string \<Rightarrow> py_error + int" where
  "py_int s =
     (if s = [] then Inl ValueError
      else (case digits_val 0 s of None \<Rightarrow> Inl ValueError | Some n \<Rightarrow> Inr (int n)))"

text \<open>\<^verbatim>\<open>s.rsplit('/', 1)[1]\<close>: the text after the last slash.\<close>

definition rsplit_slash_1 :: "string \<Rightarrow> py_error + string" where
  "rsplit_slash_1 s =
     (if CHR ''/'' \<in> set s then Inr (rev (takeWhile (\<lambda>c. c \<noteq> CHR ''/'') (rev s)))
      else Inl IndexError)"

definition SURICATA_SYNTAX_CHECK :: string where
  "SURICATA_SYNTAX_CHECK = ''Suricata Syntax Check''"

definition VARIABLE_ERROR :: int where "VARIABLE_ERROR = 101"
definition OPENING_RULE_FILE :: int where "OPENING_RULE_FILE = 41"
definition OPENING_DATASET_FILE :: int where "OPENING_DATASET_FILE = 322"
definition RULEFILE_ERRNO :: "int list" where "RULEFILE_ERRNO = [39, 42]"
definition USELESS_ERRNO :: "int list" where "USELESS_ERRNO = [40, 43, 44]"

text \<open>\<^verbatim>\<open>errno in codes\<close> for a list of integers.\<close>

definition errno_in :: "json \<Rightarrow> int list \<Rightarrow> bool" where
  "errno_in errno codes = (\<exists>k \<in> set codes. errno = JNum k)"

text \<open>The dict \<^verbatim>\<open>ret\<close> and, with it, the local variables of the loop.\<close>

record ret =
  errors :: "json list"
  warnings :: "json list"

record parse_state = ret +
  variable_list :: "string list"
  files_list :: "string list"
  ignore_next :: bool

datatype step = Continue parse_state | Return parse_state | Raise py_error

text \<open>The record appended when a line is not JSON (line 178).\<close>

definition raw_record :: "string \<Rightarrow> json" where
  "raw_record error =
     JObj [(''message'', JStr error), (''format'', JStr ''raw''),
           (''source'', JStr SURICATA_SYNTAX_CHECK)]"

definition variable_message :: "string \<Rightarrow> string" where
  "variable_message variable =
     ''Custom address variable \"$'' @ variable
       @ ''\" is used and need to be defined in probes configuration''"

text \<open>Appending a record with a new message to the warnings (lines 187 to 188 and alike).\<close>

definition warn_with :: "json \<Rightarrow> string \<Rightarrow> parse_state \<Rightarrow> py_error + parse_state" where
  "warn_with engine message st =
     (case py_setitem engine ''message'' (JStr message) of
        Inl e \<Rightarrow> Inl e
      | Inr engine' \<Rightarrow> Inr (st\<lparr>warnings := warnings st @ [engine']\<rparr>))"

text \<open>Lines 183 to 189: an undefined variable.\<close>

definition variable_error :: "json \<Rightarrow> parse_state \<Rightarrow> step" where
  "variable_error engine st =
     (case py_getitem engine ''message'' of
        Inl e \<Rightarrow> Raise e
      | Inr msg \<Rightarrow>
          (case str_of msg of
             Inl e \<Rightarrow> Raise e
           | Inr m \<Rightarrow>
               (case py_split ''\"'' m of
                  _ # variable # _ \<Rightarrow>
                    if (''$'' @ variable) \<notin> set (variable_list st) then
                      (case warn_with engine (variable_message variable)
                              (st\<lparr>variable_list := variable_list st @ [''$'' @ variable]\<rparr>) of
                         Inl e \<Rightarrow> Raise e
                       | Inr st' \<Rightarrow> Continue st')
                    else Continue st
                | _ \<Rightarrow> Raise IndexError)))"

text \<open>
  Lines 190 to 197: a dataset file that cannot be opened. The result \<open>None\<close> means that
  the pattern did not match and the line is handled further.
\<close>

definition dataset_error :: "lib_env \<Rightarrow> json \<Rightarrow> parse_state \<Rightarrow> py_error + parse_state option" where
  "dataset_error le engine st =
     (case py_getitem engine ''message'' of
        Inl e \<Rightarrow> Inl e
      | Inr msg \<Rightarrow>
          (case re_text msg of
             Inl e \<Rightarrow> Inl e
           | Inr m \<Rightarrow>
               (case re_match_group le ''fopen '([^:]*)' failed: No such file or directory'' m of
                  None \<Rightarrow> Inr None
                | Some datasource \<Rightarrow>
                    (case warn_with engine
                            (''Dataset source \"'' @ datasource
                               @ ''\" is a dependancy and needs to be added to rulesets'') st of
                       Inl e \<Rightarrow> Inl e
                     | Inr st' \<Rightarrow> Inr (Some (st'\<lparr>ignore_next := True\<rparr>))))))"

text \<open>Lines 198 to 206: a rule file that cannot be opened.\<close>

definition rule_file_error :: "lib_env \<Rightarrow> json \<Rightarrow> parse_state \<Rightarrow> py_error + parse_state option" where
  "rule_file_error le engine st =
     (case py_getitem engine ''message'' of
        Inl e \<Rightarrow> Inl e
      | Inr msg \<Rightarrow>
          (case re_text msg of
             Inl e \<Rightarrow> Inl e
           | Inr m \<Rightarrow>
               (case re_match_group le ''opening hash file ([^:]*): No such file or directory'' m of
                  None \<Rightarrow> Inr None
                | Some filename0 \<Rightarrow>
                    (case rsplit_slash_1 filename0 of
                       Inl e \<Rightarrow> Inl e
                     | Inr filename \<Rightarrow>
                         (case warn_with engine
                                 (''External file \"'' @ filename
                                    @ ''\" is a dependancy and needs to be added to rulesets'')
                                 (st\<lparr>files_list := files_list st @ [filename]\<rparr>) of
                            Inl e \<Rightarrow> Inl e
                          | Inr st' \<Rightarrow> Inr (Some st'))))))"

text \<open>
  Lines 217 to 227: whether the message names a collected variable or, when it names
  none, a collected file.
\<close>

fun found_variable :: "string list \<Rightarrow> json \<Rightarrow> py_error + bool" where
  "found_variable [] msg = Inr False"
| "found_variable (variable # rest) msg =
     (case py_contains variable msg of
        Inl e \<Rightarrow> Inl e
      | Inr True \<Rightarrow> Inr True
      | Inr False \<Rightarrow> found_variable rest msg)"

fun found_file :: "lib_env \<Rightarrow> string list \<Rightarrow> json \<Rightarrow> py_error + bool" where
  "found_file le [] msg = Inr False"
| "found_file le (filename # rest) msg =
     (case re_text msg of
        Inl e \<Rightarrow> Inl e
      | Inr m \<Rightarrow>
          if re_search le ('': *'' @ filename @ '' *;'') m then Inr True
          else found_file le rest msg)"

text \<open>
  Lines 230 to 243: an error on parsing a signature. The result is the record with its
  shortened message and, when the line number is found, the state with the line set in
  the last error; then the record itself is not appended.
\<close>

definition signature_error ::
  "lib_env \<Rightarrow> string \<Rightarrow> json \<Rightarrow> string \<Rightarrow> parse_state \<Rightarrow> py_error + json \<times> parse_state option" where
  "signature_error le line engine message st =
     (case py_setitem engine ''message'' (JStr (hd (py_split '' from file'' message))) of
        Inl e \<Rightarrow> Inl e
      | Inr engine1 \<Rightarrow>
          (case (case re_search_group le (''sid *:('' @ [CHR 0x5C] @ ''d+)'') line of
                   None \<Rightarrow> Inr engine1
                 | Some g \<Rightarrow>
                     (case py_int g of
                        Inl e \<Rightarrow> Inl e
                      | Inr sid \<Rightarrow> py_setitem engine1 ''sid'' (JNum sid))) of
             Inl e \<Rightarrow> Inl e
           | Inr engine2 \<Rightarrow>
               (case re_search_group le (''at line ('' @ [CHR 0x5C] @ ''d+)$'') message of
                  None \<Rightarrow> Inr (engine2, None)
                | Some g \<Rightarrow>
                    (case py_int g of
                       Inl e \<Rightarrow> Inl e
                     | Inr line_nb \<Rightarrow>
                         if errors st = [] then Inr (engine2, Some st)
                         else
                           (case py_setitem (last (errors st)) ''line'' (JNum (line_nb - 1)) of
                              Inl e \<Rightarrow> Inl e
                            | Inr last_error \<Rightarrow>
                                Inr (engine2,
                                     Some (st\<lparr>errors := butlast (errors st) @ [last_error]\<rparr>)))))))"

text \<open>Lines 244 to 246: the record is appended to the errors.\<close>

definition append_error :: "json \<Rightarrow> json \<Rightarrow> parse_state \<Rightarrow> step" where
  "append_error errno engine st =
     (if errno = JNum 42 then
        (case py_getitem engine ''message'' of
           Inl e \<Rightarrow> Raise e
         | Inr msg \<Rightarrow>
             (case str_of msg of
                Inl e \<Rightarrow> Raise e
              | Inr m \<Rightarrow>
                  (case py_setitem engine ''message'' (JStr (hd (py_split '' from'' m))) of
                     Inl e \<Rightarrow> Raise e
                   | Inr engine' \<Rightarrow> Continue (st\<lparr>errors := errors st @ [engine']\<rparr>))))
      else Continue (st\<lparr>errors := errors st @ [engine]\<rparr>))"

text \<open>Lines 209 to 243: an invalid signature (error code 39).\<close>

definition invalid_signature :: "lib_env \<Rightarrow> string \<Rightarrow> json \<Rightarrow> parse_state \<Rightarrow> step" where
  "invalid_signature le line engine st =
     (case py_getitem engine ''message'' of
        Inl e \<Rightarrow> Raise e
      | Inr msg \<Rightarrow>
          (case py_contains ''failed to set up dataset'' msg of
             Inl e \<Rightarrow> Raise e
           | Inr dataset \<Rightarrow>
               if dataset \<and> ignore_next st then Continue st
               else if ignore_next st then Continue (st\<lparr>ignore_next := False\<rparr>)
               else
                 (case found_variable (variable_list st) msg of
                    Inl e \<Rightarrow> Raise e
                  | Inr found_var \<Rightarrow>
                      (case (if found_var then Inr True else found_file le (files_list st) msg) of
                         Inl e \<Rightarrow> Raise e
                       | Inr found \<Rightarrow>
                           if found then Continue st
                           else
                             (case py_contains ''error parsing signature'' msg of
                                Inl e \<Rightarrow> Raise e
                              | Inr False \<Rightarrow> append_error (JNum 39) engine st
                              | Inr True \<Rightarrow>
                                  (case str_of msg of
                                     Inl e \<Rightarrow> Raise e
                                   | Inr message \<Rightarrow>
                                       (case signature_error le line engine message st of
                                          Inl e \<Rightarrow> Raise e
                                        | Inr (engine', Some st') \<Rightarrow> Continue st'
                                        | Inr (engine', None) \<Rightarrow>
                                            append_error (JNum 39) engine' st)))))))"

text \<open>The body of the loop over the lines (lines 175 to 246).\<close>

definition process_line :: "lib_env \<Rightarrow> string \<Rightarrow> bool \<Rightarrow> string \<Rightarrow> parse_state \<Rightarrow> step" where
  "process_line le error single line st =
     (case json_loads le line of
        None \<Rightarrow> Return (st\<lparr>errors := errors st @ [raw_record error]\<rparr>)
      | Some s_err \<Rightarrow>
          (case py_getitem s_err ''engine'' of
             Inl e \<Rightarrow> Raise e
           | Inr engine0 \<Rightarrow>
               (case py_setitem engine0 ''source'' (JStr SURICATA_SYNTAX_CHECK) of
                  Inl e \<Rightarrow> Raise e
                | Inr engine \<Rightarrow>
                    (case py_getitem engine ''error_code'' of
                       Inl e \<Rightarrow> Raise e
                     | Inr errno \<Rightarrow>
                         if \<not> single \<or> \<not> errno_in errno RULEFILE_ERRNO then
                           (if errno = JNum VARIABLE_ERROR then variable_error engine st
                            else
                              (case (if errno = JNum OPENING_DATASET_FILE
                                     then dataset_error le engine st else Inr None) of
                                 Inl e \<Rightarrow> Raise e
                               | Inr (Some st') \<Rightarrow> Continue st'
                               | Inr None \<Rightarrow>
                                   (case (if errno = JNum OPENING_RULE_FILE
                                          then rule_file_error le engine st else Inr None) of
                                      Inl e \<Rightarrow> Raise e
                                    | Inr (Some st') \<Rightarrow> Continue st'
                                    | Inr None \<Rightarrow>
                                        if \<not> errno_in errno USELESS_ERRNO then
                                          (if errno = JNum 39 then invalid_signature le line engine st
                                           else append_error errno engine st)
                                        else Continue st)))
                         else Continue st))))"

fun process_lines ::
  "lib_env \<Rightarrow> string \<Rightarrow> bool \<Rightarrow> string list \<Rightarrow> parse_state \<Rightarrow> py_error + parse_state" where
  "process_lines le error single [] st = Inr st"
| "process_lines le error single (line # rest) st =
     (case process_line le error single line st of
        Continue st' \<Rightarrow> process_lines le error single rest st'
      | Return st' \<Rightarrow> Inr st'
      | Raise e \<Rightarrow> Inl e)"

definition initial_state :: parse_state where
  "initial_state =
     \<lparr>errors = [], warnings = [], variable_list = [], files_list = [], ignore_next = False\<rparr>"

definition parse_suricata_error :: "lib_env \<Rightarrow> string \<Rightarrow> bool \<Rightarrow> py_error + ret" where
  "parse_suricata_error le error single =
     (case process_lines le error single (py_lines error) initial_state of
        Inl e \<Rightarrow> Inl e
      | Inr st \<Rightarrow> Inr \<lparr>errors = errors st, warnings = warnings st\<rparr>)"

section \<open>What the definition lookup and the signature help are required to do\<close>






section \<open>What the reference search is required to do\<close>






section \<open>What the error parser is required to do\<close>

text \<open>
  A warning record is the warning for an undefined variable when its message is the one
  built for that variable; \<open>one_warning_per_variable\<close>: a variable has at most one such
  warning, and none unless it has been collected.
\<close>

definition is_variable_warning :: "string \<Rightarrow> json \<Rightarrow> bool" where
  "is_variable_warning variable w \<longleftrightarrow>
     py_getitem w ''message'' = Inr (JStr (variable_message variable))"

definition one_warning_per_variable :: "parse_state \<Rightarrow> bool" where
  "one_warning_per_variable st \<longleftrightarrow>
     (\<forall>v. length (filter (is_variable_warning v) (warnings st))
            \<le> (if (''$'' @ v) \<in> set (variable_list st) then 1 else 0))"


section \<open>Example inputs\<close>

text \<open>
  A directory \<^verbatim>\<open>d\<close> with two rule files: \<^verbatim>\<open>d/a.rules\<close> is on disk and parses to one
  top-level object named \<^verbatim>\<open>x\<close>; \<^verbatim>\<open>d/b.rules\<close> cannot be read.
\<close>

definition fe_ex :: file_env where
  "fe_ex =
     \<lparr>path_from_uri = (\<lambda>u. u), path_to_uri = (\<lambda>p. p),
      os_path_isfile = (\<lambda>p. p = ''d/a.rules''),
      os_listdir = (\<lambda>d. if d = ''d'' then [''a.rules'', ''b.rules''] else []),
      os_path_ext = (\<lambda>f. drop (length f - 6) f),
      os_path_normjoin = (\<lambda>d f. d @ ''/'' @ f),
      new_file_id = length,
      read_disk = (\<lambda>p. if p = ''d/a.rules'' then Inr ([''alert x''], ''h1'')
                         else Inl ''Could not read/decode file''),
      parse_file = (\<lambda>f. Some (f\<lparr>ast := Some \<lparr>global_dict = [(''x'', 7)]\<rparr>\<rparr>)),
      fortran_ast = (\<lambda>f. \<lparr>global_dict = []\<rparr>),
      check_file = (\<lambda>f t. Inr (Some []))\<rparr>"

definition s_empty :: lang_server where
  "s_empty =
     \<lparr>workspace = [], obj_tree = [], post_messages = [], source_dirs = [''d''],
      excl_paths = [], excl_suffixes = [], conn = []\<rparr>"

definition file_a :: suricata_file where
  "file_a =
     \<lparr>file_id = 9, path = ''d/a.rules'', contents_split = [''alert x''], hash = Some ''h1'',
      ast = Some \<lparr>global_dict = [(''x'', 7)]\<rparr>\<rparr>"

definition file_b :: suricata_file where
  "file_b =
     \<lparr>file_id = 4, path = ''d/b.rules'', contents_split = [''alert y''], hash = Some ''h2'',
      ast = Some \<lparr>global_dict = [(''y'', 8)]\<rparr>\<rparr>"

definition sym_x :: symbol where
  "sym_x =
     \<lparr>sym_id = 7, name = ''x'', FQSN = ''x'', sline = 1, eline = 1, parent = None,
      obj_type = 2, obj_type_no_link = 2, link_obj = None, file_ast_path = ''d/a.rules'',
      file_ast_file = Some file_a, signature = (None, None, [])\<rparr>"

definition sym_y :: symbol where
  "sym_y =
     \<lparr>sym_id = 8, name = ''y'', FQSN = ''y'', sline = 1, eline = 1, parent = None,
      obj_type = 2, obj_type_no_link = 2, link_obj = None, file_ast_path = ''d/b.rules'',
      file_ast_file = Some file_b, signature = (None, None, [])\<rparr>"

text \<open>A server holding both files, with both top-level objects in the object tree.\<close>

definition s_both :: lang_server where
  "s_both =
     \<lparr>workspace = [(''d/a.rules'', file_a), (''d/b.rules'', file_b)],
      obj_tree = [(''x'', [sym_x]), (''y'', [sym_y])], post_messages = [],
      source_dirs = [''d''], excl_paths = [], excl_suffixes = [], conn = []\<rparr>"













text \<open>
  Three lines of engine output with what \<^verbatim>\<open>json.loads\<close> yields on them: an error with
  code 1, the undefined variable \<^verbatim>\<open>HOME\<close> (code 101) and an invalid signature (code 39)
  whose message names \<^verbatim>\<open>$HOME\<close>. Every other line is not JSON. No pattern matches.
\<close>

definition line_err :: string where
  "line_err = ''{\"engine\": {\"error_code\": 1, \"message\": \"m\"}}'' @ [CHR 0x0A]"

definition line_var :: string where
  "line_var =
     ''{\"engine\": {\"error_code\": 101, \"message\": \"Variable '' @ [CHR 0x5C]
       @ ''\"HOME'' @ [CHR 0x5C] @ ''\" undefined\"}}'' @ [CHR 0x0A]"

definition line_sig :: string where
  "line_sig =
     ''{\"engine\": {\"error_code\": 39, \"message\": \"bad $HOME in rule\"}}'' @ [CHR 0x0A]"

definition le_ex :: lib_env where
  "le_ex =
     \<lparr>json_loads = (\<lambda>l.
         if l = line_err
         then Some (JObj [(''engine'', JObj [(''error_code'', JNum 1), (''message'', JStr ''m'')])])
         else if l = line_var
         then Some (JObj [(''engine'', JObj [(''error_code'', JNum 101),
                                             (''message'', JStr ''Variable \"HOME\" undefined'')])])
         else if l = line_sig
         then Some (JObj [(''engine'', JObj [(''error_code'', JNum 39),
                                             (''message'', JStr ''bad $HOME in rule'')])])
         else None),
      re_match_group = (\<lambda>p t. None),
      re_search_group = (\<lambda>p t. None),
      re_search = (\<lambda>p t. False)\<rparr>"

definition err_two :: string where
  "err_two = line_err @ ''oops''"

definition err_var :: string where
  "err_var = line_var @ line_var @ line_sig"

definition engine_err :: json where
  "engine_err =
     JObj [(''error_code'', JNum 1), (''message'', JStr ''m''),
           (''source'', JStr ''Suricata Syntax Check'')]"

definition warning_home :: json where
  "warning_home =
     JObj [(''error_code'', JNum 101), (''message'', JStr (variable_message ''HOME'')),
           (''source'', JStr ''Suricata Syntax Check'')]"

definition st_home :: parse_state where
  "st_home =
     \<lparr>errors = [], warnings = [warning_home], variable_list = [''$HOME''], files_list = [],
      ignore_next = False\<rparr>"


section \<open>Workspace: closing a deleted file\<close>

lemma map_of_pop_keys:
  "map_of (pop_keys keys t) k = (if k \<in> set keys then None else map_of t k)"
  unfolding pop_keys_def
  by (induction keys arbitrary: t) (auto simp: delete_conv')

lemma serve_onClose_deleted:
  assumes "\<not> os_path_isfile fe (path_from_uri fe uri)"
    and "map_of (workspace s) (path_from_uri fe uri) = Some file_obj"
    and "ast file_obj = Some ast_old"
  shows "serve_onClose fe uri s =
           s\<lparr>obj_tree := pop_keys (map fst (global_dict ast_old)) (obj_tree s)\<rparr>"
  using assms by (simp add: serve_onClose_def serve_onSave_def Let_def)

text \<open>
  C2 (as the code has it). When a file is closed and no longer exists on disk, every
  object-tree entry keyed by one of the file's global names is removed, every other
  entry of the object tree is kept, and the workspace mapping is left as it was: the
  file's path is still a key of it.
\<close>

theorem serve_onClose_removes_global_names:
  assumes "\<not> os_path_isfile fe (path_from_uri fe uri)"
    and "map_of (workspace s) (path_from_uri fe uri) = Some file_obj"
    and "ast file_obj = Some ast_old"
  shows "(\<forall>key \<in> fst ` set (global_dict ast_old).
            map_of (obj_tree (serve_onClose fe uri s)) key = None)
       \<and> (\<forall>key. key \<notin> fst ` set (global_dict ast_old) \<longrightarrow>
            map_of (obj_tree (serve_onClose fe uri s)) key = map_of (obj_tree s) key)
       \<and> workspace (serve_onClose fe uri s) = workspace s"
  using serve_onClose_deleted [OF assms] by (simp add: map_of_pop_keys)

theorem serve_onClose_removes_global_names_witness:
  "\<not> os_path_isfile fe_ex (path_from_uri fe_ex ''d/b.rules'')
   \<and> map_of (workspace s_both) (path_from_uri fe_ex ''d/b.rules'') = Some file_b
   \<and> ast file_b = Some \<lparr>global_dict = [(''y'', 8)]\<rparr>
   \<and> map_of (obj_tree (serve_onClose fe_ex ''d/b.rules'' s_both)) ''y'' = None
   \<and> map_of (obj_tree (serve_onClose fe_ex ''d/b.rules'' s_both)) ''x'' = Some [sym_x]
   \<and> workspace (serve_onClose fe_ex ''d/b.rules'' s_both) = workspace s_both"
proof -
  have h1: "\<not> os_path_isfile fe_ex (path_from_uri fe_ex ''d/b.rules'')"
    by (simp add: fe_ex_def)
  have h2: "map_of (workspace s_both) (path_from_uri fe_ex ''d/b.rules'') = Some file_b"
    by (simp add: fe_ex_def s_both_def)
  have h3: "ast file_b = Some \<lparr>global_dict = [(''y'', 8)]\<rparr>"
    by (simp add: file_b_def)
  have x: "map_of (obj_tree s_both) ''x'' = Some [sym_x]"
    by (simp add: s_both_def)
  show ?thesis
    using h1 h2 h3 x serve_onClose_removes_global_names [OF h1 h2 h3] by simp
qed

text \<open>
  The claim as stated fails: after closing the deleted file \<^verbatim>\<open>d/b.rules\<close> the workspace
  still maps its path to the file object.
\<close>

theorem serve_onClose_keeps_workspace_entry:
  "\<not> os_path_isfile fe_ex (path_from_uri fe_ex ''d/b.rules'')
   \<and> map_of (workspace s_both) (path_from_uri fe_ex ''d/b.rules'') = Some file_b
   \<and> map_of (workspace (serve_onClose fe_ex ''d/b.rules'' s_both)) ''d/b.rules'' = Some file_b"
  by (simp add: serve_onClose_def serve_onSave_def Let_def fe_ex_def s_both_def file_b_def)

section \<open>Workspace: initialisation\<close>

lemma map_of_fold_update:
  "map_of (fold (\<lambda>filepath results. AList.update filepath (g filepath) results) fl acc) q
     = (if q \<in> set fl then Some (g q) else map_of acc q)"
  by (induction fl arbitrary: acc) (auto simp: update_conv')

lemma map_of_pool_results:
  "map_of (pool_results fe fl) q = (if q \<in> set fl then Some (init_file fe q) else None)"
  unfolding pool_results_def by (simp add: map_of_fold_update)

lemma distinct_fold_update:
  "distinct (map fst acc) \<Longrightarrow>
   distinct (map fst (fold (\<lambda>filepath results. AList.update filepath (g filepath) results) fl acc))"
  by (induction fl arbitrary: acc) (auto simp: distinct_update)

lemma distinct_pool_results: "distinct (map fst (pool_results fe fl))"
  unfolding pool_results_def by (rule distinct_fold_update) simp

lemma merge_results_obj_tree: "obj_tree (merge_results rs s) = obj_tree s"
  by (induction rs s rule: merge_results.induct) (auto split: option.splits)

lemma merge_results_workspace:
  "distinct (map fst rs) \<Longrightarrow>
   map_of (workspace (merge_results rs s)) p =
     (case map_of rs p of
        Some (Some f, e) \<Rightarrow> Some f
      | _ \<Rightarrow> map_of (workspace s) p)"
proof (induction rs s rule: merge_results.induct)
  case (1 s)
  then show ?case by simp
next
  case (2 q result_obj rest s)
  from "2.prems" have d: "distinct (map fst rest)" and nq: "map_of rest q = None"
    by (auto simp: map_of_eq_None_iff)
  obtain r e where ro: "result_obj = (r, e)" by (cases result_obj)
  show ?case
  proof (cases r)
    case None
    with ro d nq "2.IH"(1) show ?thesis
      by (cases "p = q") (auto split: option.splits)
  next
    case (Some f)
    with ro d nq "2.IH"(2) show ?thesis
      by (cases "p = q") (auto simp: update_conv' split: option.splits)
  qed
qed

lemma merge_results_messages_mono:
  "set (post_messages s) \<subseteq> set (post_messages (merge_results rs s))"
  by (induction rs s rule: merge_results.induct) (auto split: option.splits)

lemma merge_results_messages:
  "(p, (None, e)) \<in> set rs \<Longrightarrow>
   (1, init_failed_msg p e) \<in> set (post_messages (merge_results rs s))"
proof (induction rs s rule: merge_results.induct)
  case (1 s)
  then show ?case by simp
next
  case (2 q result_obj rest s)
  show ?case
  proof (cases "(p, (None, e)) = (q, result_obj)")
    case True
    then show ?thesis
      using merge_results_messages_mono
        [of "s\<lparr>post_messages := post_messages s @ [(1, init_failed_msg p e)]\<rparr>" rest]
      by auto
  next
    case False
    then show ?thesis using 2 by (auto split: option.splits)
  qed
qed

text \<open>
  C3 (as the code has it). After workspace initialisation, for every input file path:
  if the worker failed (disk read or parse error) a per-file warning is recorded and the
  workspace entry of the path is as it was before (absent on a fresh workspace); if the
  worker succeeded, the file object it returned is the workspace entry of the path. The
  object tree is not written by the initialisation.
\<close>

theorem workspace_init_merges_results:
  assumes "p \<in> set (file_list_of fe s)"
  shows "(fst (init_file fe p) = None \<longrightarrow>
            (1, init_failed_msg p (snd (init_file fe p)))
               \<in> set (post_messages (workspace_init fe s))
            \<and> map_of (workspace (workspace_init fe s)) p = map_of (workspace s) p)
       \<and> (\<forall>f. fst (init_file fe p) = Some f \<longrightarrow>
            map_of (workspace (workspace_init fe s)) p = Some f)
       \<and> obj_tree (workspace_init fe s) = obj_tree s"
proof -
  let ?rs = "pool_results fe (file_list_of fe s)"
  have look: "map_of ?rs p = Some (init_file fe p)"
    using assms by (simp add: map_of_pool_results)
  have ws: "map_of (workspace (workspace_init fe s)) p =
              (case fst (init_file fe p) of None \<Rightarrow> map_of (workspace s) p | Some f \<Rightarrow> Some f)"
    unfolding workspace_init_def
    by (simp add: merge_results_workspace [OF distinct_pool_results] look
        split: prod.splits option.splits)
  have msg: "fst (init_file fe p) = None \<Longrightarrow>
      (1, init_failed_msg p (snd (init_file fe p))) \<in> set (post_messages (workspace_init fe s))"
  proof -
    assume n: "fst (init_file fe p) = None"
    have "(p, init_file fe p) \<in> set ?rs" using look by (rule map_of_SomeD)
    then have "(p, (None, snd (init_file fe p))) \<in> set ?rs"
      using n by (metis prod.collapse)
    then show ?thesis unfolding workspace_init_def by (rule merge_results_messages)
  qed
  show ?thesis
    using ws msg by (auto simp: workspace_init_def merge_results_obj_tree)
qed

lemma file_list_ex: "file_list_of fe_ex s_empty = [''d/a.rules'', ''d/b.rules'']"
  by (simp add: file_list_of_def dir_files_def fe_ex_def s_empty_def rules_ext_match_def
      py_lower_def py_lower_char_def)

lemma init_file_ex_a: "init_file fe_ex ''d/a.rules'' = (Some file_a, None)"
  by (simp add: init_file_def load_from_disk_def SuricataFile_def fe_ex_def file_a_def)

lemma init_file_ex_b:
  "init_file fe_ex ''d/b.rules'' = (None, Some ''Could not read/decode file'')"
  by (simp add: init_file_def load_from_disk_def SuricataFile_def fe_ex_def)

theorem workspace_init_merges_results_witness:
  "''d/b.rules'' \<in> set (file_list_of fe_ex s_empty)
   \<and> fst (init_file fe_ex ''d/b.rules'') = None
   \<and> (1, ''Initialization failed for file \"d/b.rules\": Could not read/decode file'')
        \<in> set (post_messages (workspace_init fe_ex s_empty))
   \<and> map_of (workspace (workspace_init fe_ex s_empty)) ''d/b.rules'' = None
   \<and> ''d/a.rules'' \<in> set (file_list_of fe_ex s_empty)
   \<and> fst (init_file fe_ex ''d/a.rules'') = Some file_a
   \<and> map_of (workspace (workspace_init fe_ex s_empty)) ''d/a.rules'' = Some file_a
   \<and> obj_tree (workspace_init fe_ex s_empty) = []"
proof -
  have a: "''d/a.rules'' \<in> set (file_list_of fe_ex s_empty)"
    and b: "''d/b.rules'' \<in> set (file_list_of fe_ex s_empty)"
    by (simp_all add: file_list_ex)
  have e: "workspace s_empty = []" "obj_tree s_empty = []"
    by (simp_all add: s_empty_def)
  show ?thesis
    using a b e workspace_init_merges_results [OF a] workspace_init_merges_results [OF b]
    by (simp add: init_file_ex_a init_file_ex_b init_failed_msg_def)
qed

text \<open>
  The claim as stated fails: the worker for \<^verbatim>\<open>d/a.rules\<close> succeeds and its tree has the
  top-level name \<^verbatim>\<open>x\<close>, yet after the initialisation the object tree has no entry
  for \<^verbatim>\<open>x\<close>.
\<close>

theorem workspace_init_leaves_obj_tree_empty:
  "''d/a.rules'' \<in> set (file_list_of fe_ex s_empty)
   \<and> init_file fe_ex ''d/a.rules'' = (Some file_a, None)
   \<and> ast file_a = Some \<lparr>global_dict = [(''x'', 7)]\<rparr>
   \<and> map_of (workspace (workspace_init fe_ex s_empty)) ''d/a.rules'' = Some file_a
   \<and> map_of (obj_tree (workspace_init fe_ex s_empty)) ''x'' = None"
proof -
  have "workspace_init fe_ex s_empty =
          s_empty\<lparr>workspace := [(''d/a.rules'', file_a)],
            post_messages := [(1, init_failed_msg ''d/b.rules'' (Some ''Could not read/decode file''))]\<rparr>"
    unfolding workspace_init_def file_list_ex pool_results_def
    by (simp add: init_file_ex_a init_file_ex_b s_empty_def)
  then have "workspace (workspace_init fe_ex s_empty) = [(''d/a.rules'', file_a)]"
    and "obj_tree (workspace_init fe_ex s_empty) = []"
    by (simp_all add: s_empty_def)
  moreover have "ast file_a = Some \<lparr>global_dict = [(''x'', 7)]\<rparr>"
    by (simp add: file_a_def)
  ultimately show ?thesis
    by (simp add: file_list_ex init_file_ex_a)
qed

section \<open>Workspace: saving an unchanged file\<close>

text \<open>
  C4. For a file already in the workspace, \<open>update_workspace_file\<close> with \<open>read_file\<close>
  set, when the content loaded from disk has the stored hash, reports no change and no
  error; \<open>parse_file\<close> is not called (the outcome is the same for every \<open>parse_file\<close>),
  the object tree is untouched, and the workspace holds the same keys and under the
  file's path the same object (same identity, same tree, same hash) with the loaded
  content.
\<close>

theorem update_workspace_file_unchanged_hash:
  assumes "map_of (workspace s) filepath = Some file_obj"
    and "read_disk fe (path file_obj) = Inr (ls, h)"
    and "hash file_obj = Some h"
  shows "fst (update_workspace_file fe filepath True allow_empty update_links s) = (False, None)
       \<and> obj_tree (snd (update_workspace_file fe filepath True allow_empty update_links s))
           = obj_tree s
       \<and> map fst (workspace (snd (update_workspace_file fe filepath True allow_empty update_links s)))
           = map fst (workspace s)
       \<and> map_of (workspace (snd (update_workspace_file fe filepath True allow_empty update_links s)))
           = (map_of (workspace s))(filepath \<mapsto> file_obj\<lparr>contents_split := ls\<rparr>)
       \<and> (\<forall>pf. update_workspace_file (fe\<lparr>parse_file := pf\<rparr>) filepath True allow_empty update_links s
               = update_workspace_file fe filepath True allow_empty update_links s)"
proof -
  have same: "file_obj\<lparr>contents_split := ls, hash := Some h\<rparr> = file_obj\<lparr>contents_split := ls\<rparr>"
    using assms(3) by simp
  have keys: "map fst (AList.update filepath v (workspace s)) = map fst (workspace s)" for v
    using assms(1) by (simp add: update_keys domIff dom_map_of_conv_image_fst [symmetric])
  have r: "update_workspace_file fe' filepath True allow_empty update_links s =
        ((False, None),
         s\<lparr>workspace := AList.update filepath (file_obj\<lparr>contents_split := ls\<rparr>) (workspace s)\<rparr>)"
    if "read_disk fe' = read_disk fe" for fe'
    using assms that
    by (simp add: update_workspace_file_def load_from_disk_def sync_file_def Let_def same)
  show ?thesis
    by (simp add: r keys update_conv')
qed

theorem update_workspace_file_unchanged_hash_witness:
  "map_of (workspace s_both) ''d/a.rules'' = Some file_a
   \<and> read_disk fe_ex (path file_a) = Inr ([''alert x''], ''h1'')
   \<and> hash file_a = Some ''h1''
   \<and> update_workspace_file fe_ex ''d/a.rules'' True False False s_both = ((False, None), s_both)"
proof -
  have h1: "map_of (workspace s_both) ''d/a.rules'' = Some file_a"
    by (simp add: s_both_def)
  have h2: "read_disk fe_ex (path file_a) = Inr ([''alert x''], ''h1'')"
    by (simp add: fe_ex_def file_a_def)
  have h3: "hash file_a = Some ''h1''"
    by (simp add: file_a_def)
  have "update_workspace_file fe_ex ''d/a.rules'' True False False s_both = ((False, None), s_both)"
    by (simp add: update_workspace_file_def load_from_disk_def sync_file_def Let_def fe_ex_def
        s_both_def file_a_def)
  then show ?thesis
    using h1 h2 h3 update_workspace_file_unchanged_hash [OF h1 h2 h3, of False False]
    by simp
qed

section \<open>Reference search\<close>


















section \<open>Definition lookup\<close>








section \<open>Rename without references\<close>








section \<open>Signature help: the active parameter\<close>



lemma split_from_nonempty: "split_from sep acc s \<noteq> []"
  by (induction sep acc s rule: split_from.induct) auto

lemma py_split_nonempty: "py_split sep s \<noteq> []"
  unfolding py_split_def by (rule split_from_nonempty)













section \<open>Error output: a line that is not JSON\<close>

lemma variable_error_not_Return: "variable_error engine st \<noteq> Return st'"
  by (simp add: variable_error_def split: sum.splits list.splits)

lemma append_error_not_Return: "append_error errno engine st \<noteq> Return st'"
  by (simp add: append_error_def split: sum.splits)

lemma invalid_signature_not_Return: "invalid_signature le line engine st \<noteq> Return st'"
  by (simp add: invalid_signature_def append_error_not_Return
      split: sum.splits bool.splits prod.splits option.splits)

lemma process_line_json:
  "json_loads le line = Some s_err \<Longrightarrow> process_line le error single line st \<noteq> Return st'"
  by (simp add: process_line_def variable_error_not_Return append_error_not_Return
      invalid_signature_not_Return split: sum.splits option.splits)

lemma process_line_not_json:
  "json_loads le line = None \<Longrightarrow>
   process_line le error single line st = Return (st\<lparr>errors := errors st @ [raw_record error]\<rparr>)"
  by (simp add: process_line_def)

lemma process_lines_first_failure:
  assumes "\<forall>l \<in> set pre. json_loads le l \<noteq> None" and "json_loads le line = None"
  shows "process_lines le error single (pre @ line # rest) st =
           (case process_lines le error single pre st of
              Inl e \<Rightarrow> Inl e
            | Inr st' \<Rightarrow> Inr (st'\<lparr>errors := errors st' @ [raw_record error]\<rparr>))"
  using assms
proof (induction pre arbitrary: st)
  case Nil
  then show ?case by (simp add: process_line_not_json)
next
  case (Cons l pre)
  from Cons.prems obtain s_err where j: "json_loads le l = Some s_err" by auto
  show ?case
  proof (cases "process_line le error single l st")
    case (Continue st1)
    with Cons show ?thesis by simp
  next
    case (Return st1)
    with process_line_json [OF j, of error single st st1] show ?thesis by simp
  next
    case (Raise e)
    then show ?thesis by simp
  qed
qed

text \<open>
  C9 (as the code has it). When line \<open>k\<close> of the input is the first line that is not
  JSON, the function returns at that line: the errors are the errors collected from the
  lines before it followed by one record holding the entire input as its message, with
  format \<^verbatim>\<open>raw\<close> and source \<^verbatim>\<open>Suricata Syntax Check\<close>; the warnings are those
  collected from the lines before it; the lines after it are not processed (or a line
  before it raised). When the first line is not JSON, the errors are exactly that one
  record.
\<close>

theorem parse_suricata_error_not_json:
  assumes "k < length (py_lines error)"
    and "json_loads le (py_lines error ! k) = None"
    and "\<forall>j < k. json_loads le (py_lines error ! j) \<noteq> None"
  shows "parse_suricata_error le error single =
           (case process_lines le error single (take k (py_lines error)) initial_state of
              Inl e \<Rightarrow> Inl e
            | Inr st \<Rightarrow>
                Inr \<lparr>errors = errors st @ [raw_record error], warnings = warnings st\<rparr>)
       \<and> (k = 0 \<longrightarrow>
            parse_suricata_error le error single
              = Inr \<lparr>errors = [raw_record error], warnings = []\<rparr>)"
proof -
  let ?ls = "py_lines error"
  have split: "?ls = take k ?ls @ ?ls ! k # drop (Suc k) ?ls"
    using assms(1) by (rule id_take_nth_drop)
  have pre: "\<forall>l \<in> set (take k ?ls). json_loads le l \<noteq> None"
    using assms(1,3) by (auto simp: in_set_conv_nth)
  have "process_lines le error single ?ls initial_state =
           (case process_lines le error single (take k ?ls) initial_state of
              Inl e \<Rightarrow> Inl e
            | Inr st' \<Rightarrow> Inr (st'\<lparr>errors := errors st' @ [raw_record error]\<rparr>))"
    by (subst split) (rule process_lines_first_failure [OF pre assms(2)])
  then have main: "parse_suricata_error le error single =
           (case process_lines le error single (take k ?ls) initial_state of
              Inl e \<Rightarrow> Inl e
            | Inr st \<Rightarrow>
                Inr \<lparr>errors = errors st @ [raw_record error], warnings = warnings st\<rparr>)"
    by (simp add: parse_suricata_error_def split: sum.splits)
  then show ?thesis
    by (auto simp: initial_state_def)
qed


theorem parse_suricata_error_not_json_witness:
  "1 < length (py_lines err_two)
   \<and> json_loads le_ex (py_lines err_two ! 1) = None
   \<and> json_loads le_ex (py_lines err_two ! 0) \<noteq> None
   \<and> process_lines le_ex err_two False (take 1 (py_lines err_two)) initial_state
       = Inr (initial_state\<lparr>errors := [engine_err]\<rparr>)
   \<and> parse_suricata_error le_ex err_two False
       = Inr \<lparr>errors = [engine_err] @ [raw_record err_two], warnings = []\<rparr>"
proof -
  have ls: "py_lines err_two = [line_err, ''oops'']"
    by code_simp
  have h1: "1 < length (py_lines err_two)"
    by (simp add: ls)
  have h2: "json_loads le_ex (py_lines err_two ! 1) = None"
    unfolding ls by code_simp
  have j0: "json_loads le_ex line_err \<noteq> None"
    by (simp add: le_ex_def)
  have h3: "\<forall>j < 1. json_loads le_ex (py_lines err_two ! j) \<noteq> None"
    using j0 by (simp add: ls)
  have p: "process_lines le_ex err_two False (take 1 (py_lines err_two)) initial_state
             = Inr (initial_state\<lparr>errors := [engine_err]\<rparr>)"
    unfolding ls by code_simp
  have w: "warnings initial_state = []" by (simp add: initial_state_def)
  have j1: "json_loads le_ex (py_lines err_two ! 0) \<noteq> None"
    using j0 by (simp add: ls)
  show ?thesis
    using h1 h2 j1 p w parse_suricata_error_not_json [OF h1 h2 h3, of False]
    by simp
qed


text \<open>
  The claim as stated fails: the first line is an error record, the second line is not
  JSON, and the result has two errors, the record of the first line and the raw record.
\<close>

theorem parse_suricata_error_keeps_earlier_errors:
  "py_lines err_two = [line_err, ''oops'']
   \<and> json_loads le_ex ''oops'' = None
   \<and> parse_suricata_error le_ex err_two False
       = Inr \<lparr>errors = [engine_err, raw_record err_two], warnings = []\<rparr>
   \<and> length [engine_err, raw_record err_two] = 2"
proof -
  have a: "py_lines err_two = [line_err, ''oops'']"
    by code_simp
  have b: "json_loads le_ex ''oops'' = None"
    by code_simp
  have c: "parse_suricata_error le_ex err_two False
             = Inr \<lparr>errors = [engine_err, raw_record err_two], warnings = []\<rparr>"
    by code_simp
  from a b c show ?thesis by simp
qed


section \<open>Error output: undefined variables\<close>

lemma variable_message_inject: "variable_message v = variable_message w \<longleftrightarrow> v = w"
  by (simp add: variable_message_def)

lemma is_variable_warning_update:
  "is_variable_warning v (JObj (AList.update ''message'' (JStr m) kvs)) \<longleftrightarrow> m = variable_message v"
  by (auto simp: is_variable_warning_def py_getitem_def update_conv')

lemma warn_withD:
  assumes "warn_with engine m st = Inr st'"
  shows "\<exists>kvs. st' = st\<lparr>warnings := warnings st @ [JObj (AList.update ''message'' (JStr m) kvs)]\<rparr>"
  using assms by (auto simp: warn_with_def py_setitem_def split: json.splits sum.splits)

lemma inv_other_warning:
  assumes "one_warning_per_variable st" and "warn_with engine m st = Inr st'"
    and "\<forall>v. m \<noteq> variable_message v"
  shows "one_warning_per_variable st'"
proof -
  from warn_withD [OF assms(2)] obtain kvs where
    "st' = st\<lparr>warnings := warnings st @ [JObj (AList.update ''message'' (JStr m) kvs)]\<rparr>"
    by blast
  with assms(1,3) show ?thesis
    by (simp add: one_warning_per_variable_def is_variable_warning_update)
qed

lemma inv_frame:
  assumes "one_warning_per_variable st"
    and "warnings st' = warnings st" and "variable_list st' = variable_list st"
  shows "one_warning_per_variable st'"
  using assms by (simp add: one_warning_per_variable_def)

lemma variable_error_inv:
  assumes "one_warning_per_variable st" and "variable_error engine st = Continue st'"
  shows "one_warning_per_variable st'"
proof -
  from assms(2) consider (same) "st' = st"
    | (new) variable where "(''$'' @ variable) \<notin> set (variable_list st)"
        "warn_with engine (variable_message variable)
           (st\<lparr>variable_list := variable_list st @ [''$'' @ variable]\<rparr>) = Inr st'"
    by (auto simp: variable_error_def split: sum.splits list.splits if_splits)
  then show ?thesis
  proof cases
    case same
    with assms(1) show ?thesis by simp
  next
    case new
    from warn_withD [OF new(2)] obtain kvs where
      st': "st' = st\<lparr>variable_list := variable_list st @ [''$'' @ variable],
              warnings := warnings st
                 @ [JObj (AList.update ''message'' (JStr (variable_message variable)) kvs)]\<rparr>"
      by auto
    from assms(1) new(1) have zero: "filter (is_variable_warning variable) (warnings st) = []"
      unfolding one_warning_per_variable_def
      by (metis (full_types) le_zero_eq length_0_conv)
    show ?thesis
      unfolding one_warning_per_variable_def
    proof
      fix v
      show "length (filter (is_variable_warning v) (warnings st'))
              \<le> (if (''$'' @ v) \<in> set (variable_list st') then 1 else 0)"
      proof (cases "v = variable")
        case True
        with zero show ?thesis
          by (simp add: st' is_variable_warning_update)
      next
        case False
        with assms(1) show ?thesis
          by (simp add: st' is_variable_warning_update variable_message_inject
              one_warning_per_variable_def)
      qed
    qed
  qed
qed

lemma dataset_message_differs:
  "''Dataset source \"'' @ d @ ''\" is a dependancy and needs to be added to rulesets''
     \<noteq> variable_message v"
  by (simp add: variable_message_def)

lemma file_message_differs:
  "''External file \"'' @ f @ ''\" is a dependancy and needs to be added to rulesets''
     \<noteq> variable_message v"
  by (simp add: variable_message_def)

lemma one_warning_ignore_next [simp]:
  "one_warning_per_variable (st\<lparr>ignore_next := b\<rparr>) = one_warning_per_variable st"
  by (simp add: one_warning_per_variable_def)

lemma one_warning_files_list [simp]:
  "one_warning_per_variable (st\<lparr>files_list := fl\<rparr>) = one_warning_per_variable st"
  by (simp add: one_warning_per_variable_def)

lemma one_warning_errors [simp]:
  "one_warning_per_variable (st\<lparr>errors := es\<rparr>) = one_warning_per_variable st"
  by (simp add: one_warning_per_variable_def)

lemma dataset_error_inv:
  assumes "one_warning_per_variable st" and "dataset_error le engine st = Inr (Some st')"
  shows "one_warning_per_variable st'"
proof -
  from assms(2) obtain d st1 where
    w: "warn_with engine
          (''Dataset source \"'' @ d @ ''\" is a dependancy and needs to be added to rulesets'') st
        = Inr st1"
    and s: "st' = st1\<lparr>ignore_next := True\<rparr>"
    by (auto simp: dataset_error_def split: sum.splits option.splits)
  from inv_other_warning [OF assms(1) w] dataset_message_differs
  have "one_warning_per_variable st1" by blast
  with s show ?thesis by simp
qed

lemma rule_file_error_inv:
  assumes "one_warning_per_variable st" and "rule_file_error le engine st = Inr (Some st')"
  shows "one_warning_per_variable st'"
proof -
  from assms(2) obtain f where
    w: "warn_with engine
          (''External file \"'' @ f @ ''\" is a dependancy and needs to be added to rulesets'')
          (st\<lparr>files_list := files_list st @ [f]\<rparr>)
        = Inr st'"
    by (auto simp: rule_file_error_def split: sum.splits option.splits)
  have "one_warning_per_variable (st\<lparr>files_list := files_list st @ [f]\<rparr>)"
    using assms(1) by simp
  from inv_other_warning [OF this w] file_message_differs
  show ?thesis by blast
qed

lemma append_error_inv:
  assumes "one_warning_per_variable st" and "append_error errno engine st = Continue st'"
  shows "one_warning_per_variable st'"
  using assms by (auto simp: append_error_def split: sum.splits if_splits)

lemma signature_error_inv:
  assumes "one_warning_per_variable st"
    and "signature_error le line engine message st = Inr (engine', Some st')"
  shows "one_warning_per_variable st'"
  using assms
  by (auto simp: signature_error_def split: sum.splits option.splits if_splits)

lemma invalid_signature_inv:
  assumes "one_warning_per_variable st" and "invalid_signature le line engine st = Continue st'"
  shows "one_warning_per_variable st'"
  using assms
  by (auto simp: invalid_signature_def
      split: sum.splits option.splits if_splits bool.splits prod.splits
      dest: append_error_inv signature_error_inv)

lemma process_line_inv:
  assumes "one_warning_per_variable st"
    and "process_line le error single line st = Continue st' \<or>
         process_line le error single line st = Return st'"
  shows "one_warning_per_variable st'"
proof (cases "json_loads le line")
  case None
  with assms show ?thesis by (auto simp: process_line_not_json)
next
  case (Some s_err)
  with assms(2) process_line_json [OF Some, of error single st st']
  have c: "process_line le error single line st = Continue st'" by simp
  from c Some obtain engine errno where
    b: "(errno = JNum VARIABLE_ERROR \<and> variable_error engine st = Continue st')
        \<or> (dataset_error le engine st = Inr (Some st'))
        \<or> (rule_file_error le engine st = Inr (Some st'))
        \<or> (invalid_signature le line engine st = Continue st')
        \<or> (append_error errno engine st = Continue st')
        \<or> st' = st"
    by (auto simp: process_line_def split: sum.splits option.splits if_splits)
  with assms(1) show ?thesis
    by (auto dest: variable_error_inv dataset_error_inv rule_file_error_inv
        invalid_signature_inv append_error_inv)
qed

lemma process_lines_inv:
  "one_warning_per_variable st \<Longrightarrow> process_lines le error single ls st = Inr st' \<Longrightarrow>
   one_warning_per_variable st'"
proof (induction ls arbitrary: st)
  case Nil
  then show ?case by simp
next
  case (Cons l ls)
  show ?case
  proof (cases "process_line le error single l st")
    case (Continue st1)
    with Cons.prems(1) have "one_warning_per_variable st1"
      using process_line_inv by blast
    with Cons.IH Cons.prems(2) Continue show ?thesis by simp
  next
    case (Return st1)
    with Cons.prems have "st1 = st'" by simp
    with Cons.prems(1) Return show ?thesis
      using process_line_inv by blast
  next
    case (Raise e)
    with Cons.prems show ?thesis by simp
  qed
qed

lemma found_variable_member:
  "v \<in> set vl \<Longrightarrow> py_in v m \<Longrightarrow> found_variable vl (JStr m) = Inr True"
  by (induction vl) (auto simp: py_contains_def split: bool.splits)

lemma invalid_signature_variable:
  assumes "py_getitem engine ''message'' = Inr (JStr m)"
    and "v \<in> set (variable_list st)" and "py_in v m"
  shows "\<exists>st'. invalid_signature le line engine st = Continue st' \<and> errors st' = errors st
           \<and> warnings st' = warnings st"
  using assms found_variable_member [OF assms(2,3)]
  by (auto simp: invalid_signature_def py_contains_def)

lemma process_line_suppressed:
  assumes "json_loads le line = Some s_err"
    and "py_getitem s_err ''engine'' = Inr (JObj kvs)"
    and "map_of kvs ''error_code'' = Some (JNum 39)"
    and "map_of kvs ''message'' = Some (JStr m)"
    and "v \<in> set (variable_list st)" and "py_in v m"
  shows "\<exists>st'. process_line le error single line st = Continue st' \<and> errors st' = errors st
           \<and> warnings st' = warnings st"
proof -
  let ?engine = "JObj (AList.update ''source'' (JStr SURICATA_SYNTAX_CHECK) kvs)"
  have s: "py_setitem (JObj kvs) ''source'' (JStr SURICATA_SYNTAX_CHECK) = Inr ?engine"
    by (simp add: py_setitem_def)
  have c: "py_getitem ?engine ''error_code'' = Inr (JNum 39)"
    using assms(3) by (simp add: py_getitem_def update_conv')
  have g: "py_getitem ?engine ''message'' = Inr (JStr m)"
    using assms(4) by (simp add: py_getitem_def update_conv')
  from invalid_signature_variable [OF g assms(5,6), of le line]
  obtain st' where i: "invalid_signature le line ?engine st = Continue st'"
    "errors st' = errors st" "warnings st' = warnings st" by blast
  show ?thesis
  proof (cases "single")
    case True
    with assms(1,2) s c show ?thesis
      by (simp add: process_line_def errno_in_def RULEFILE_ERRNO_def)
  next
    case False
    with assms(1,2) s c i show ?thesis
      by (simp add: process_line_def errno_in_def USELESS_ERRNO_def VARIABLE_ERROR_def
          OPENING_DATASET_FILE_def OPENING_RULE_FILE_def)
  qed
qed

text \<open>
  C10. For every input on which the function returns, each variable has at most one
  undefined-variable warning in the result, however many records with code 101 name it;
  and a record with code 39 whose message contains a collected variable name (the name
  with its \<^verbatim>\<open>$\<close>, as it is collected) leaves the errors as they are.
\<close>

theorem parse_suricata_error_variables:
  "(\<forall>r variable. parse_suricata_error le error single = Inr r \<longrightarrow>
       length (filter (is_variable_warning variable) (warnings r)) \<le> 1)
   \<and> (\<forall>line s_err kvs m v st.
        json_loads le line = Some s_err \<and> py_getitem s_err ''engine'' = Inr (JObj kvs)
        \<and> map_of kvs ''error_code'' = Some (JNum 39) \<and> map_of kvs ''message'' = Some (JStr m)
        \<and> v \<in> set (variable_list st) \<and> py_in v m \<longrightarrow>
          (\<exists>st'. process_line le error single line st = Continue st' \<and> errors st' = errors st))"
proof -
  have i0: "one_warning_per_variable initial_state"
    by (simp add: one_warning_per_variable_def initial_state_def)
  have a: "length (filter (is_variable_warning variable) (warnings r)) \<le> 1"
    if "parse_suricata_error le error single = Inr r" for r variable
  proof -
    from that obtain st where
      p: "process_lines le error single (py_lines error) initial_state = Inr st"
      and r: "r = \<lparr>errors = errors st, warnings = warnings st\<rparr>"
      by (auto simp: parse_suricata_error_def split: sum.splits)
    from process_lines_inv [OF i0 p]
    have "length (filter (is_variable_warning variable) (warnings st))
            \<le> (if (''$'' @ variable) \<in> set (variable_list st) then 1 else 0)"
      unfolding one_warning_per_variable_def by blast
    then show ?thesis by (simp add: r split: if_splits)
  qed
  have b: "\<exists>st'. process_line le error single line st = Continue st' \<and> errors st' = errors st"
    if "json_loads le line = Some s_err" "py_getitem s_err ''engine'' = Inr (JObj kvs)"
      "map_of kvs ''error_code'' = Some (JNum 39)" "map_of kvs ''message'' = Some (JStr m)"
      "v \<in> set (variable_list st)" "py_in v m" for line s_err kvs m v st
    using process_line_suppressed [OF that] by blast
  from a b show ?thesis by blast
qed

theorem parse_suricata_error_variables_witness:
  "parse_suricata_error le_ex err_var False = Inr \<lparr>errors = [], warnings = [warning_home]\<rparr>
   \<and> length (filter (is_variable_warning ''HOME'') [warning_home]) \<le> 1
   \<and> json_loads le_ex line_sig
       = Some (JObj [(''engine'', JObj [(''error_code'', JNum 39),
                                        (''message'', JStr ''bad $HOME in rule'')])])
   \<and> ''$HOME'' \<in> set (variable_list st_home)
   \<and> py_in ''$HOME'' ''bad $HOME in rule''
   \<and> (\<exists>st'. process_line le_ex err_var False line_sig st_home = Continue st'
             \<and> errors st' = errors st_home)"
proof -
  let ?kvs = "[(''error_code'', JNum 39), (''message'', JStr ''bad $HOME in rule'')]"
  have p: "parse_suricata_error le_ex err_var False
             = Inr \<lparr>errors = [], warnings = [warning_home]\<rparr>"
    by code_simp
  have j: "json_loads le_ex line_sig = Some (JObj [(''engine'', JObj ?kvs)])"
    by code_simp
  have g: "py_getitem (JObj [(''engine'', JObj ?kvs)]) ''engine'' = Inr (JObj ?kvs)"
    by (simp add: py_getitem_def)
  have c: "map_of ?kvs ''error_code'' = Some (JNum 39)" by simp
  have m: "map_of ?kvs ''message'' = Some (JStr ''bad $HOME in rule'')" by simp
  have v: "''$HOME'' \<in> set (variable_list st_home)" by (simp add: st_home_def)
  have i: "py_in ''$HOME'' ''bad $HOME in rule''" by code_simp
  note t = parse_suricata_error_variables [of le_ex err_var False]
  from t p have a: "length (filter (is_variable_warning ''HOME'')
                      (warnings \<lparr>errors = [], warnings = [warning_home]\<rparr>)) \<le> 1"
    by blast
  from t j g c m v i
  have b: "\<exists>st'. process_line le_ex err_var False line_sig st_home = Continue st'
             \<and> errors st' = errors st_home"
    by blast
  from p a j v i b show ?thesis by simp
qed

end
